theory Spec2Isabelle
  imports Complex_Main
begin

section \<open>Python values, exceptions and name resolution\<close>

text \<open>
  The module \<open>lib/my_picar_utils.py\<close> is embedded function by function. Python numbers
  (\<open>int\<close> and finite \<open>float\<close>) that are only compared, negated, added or divided are
  modelled as \<^typ>\<open>real\<close>; a value that the code has passed through \<open>int(...)\<close>
  is an \<^typ>\<open>int\<close>. An exception is a value of the type \<open>error\<close>, and a function
  that may raise returns \<open>error + 'a\<close> with \<open>Inl\<close> for the exception.
\<close>

datatype error =
    NameError string
  | AttributeError string
  | TypeError string
  | ZeroDivisionError

definition bind_res :: "error + 'a \<Rightarrow> ('a \<Rightarrow> error + 'b) \<Rightarrow> error + 'b" where
  "bind_res r f = (case r of Inl e \<Rightarrow> Inl e | Inr v \<Rightarrow> f v)"

text \<open>Python's \<open>x / y\<close> on numbers: a zero divisor raises.\<close>

definition py_truediv :: "real \<Rightarrow> real \<Rightarrow> error + real" where
  "py_truediv x y = (if y = 0 then Inl ZeroDivisionError else Inr (x / y))"

text \<open>Python's \<open>int(x)\<close> on a finite number: truncation towards zero.\<close>

definition py_int :: "real \<Rightarrow> int" where
  "py_int x = (if 0 \<le> x then \<lfloor>x\<rfloor> else \<lceil>x\<rceil>)"

text \<open>
  What a module-level name is bound to: a function of one number, or some other object
  (a module, a class, a constant, a function of another arity).
\<close>

datatype pyobj = Fn "real \<Rightarrow> error + real" | Opaque

text \<open>
  The global namespace of \<open>my_picar_utils.py\<close> once the module is loaded: the names
  bound by its \<open>import\<close> statements (lines 14 to 23) and by its top-level \<open>class\<close>
  and \<open>def\<close> statements, in source order.
\<close>

definition module_globals :: "string \<rightharpoonup> pyobj" where
  "module_globals = map_of
     [(''sys'', Opaque), (''sleep'', Opaque), (''monotonic'', Opaque),
      (''sin'', Fn (\<lambda>x. Inr (sin x))), (''cos'', Fn (\<lambda>x. Inr (cos x))),
      (''tan'', Fn (\<lambda>x. Inr (tan x))), (''atan'', Fn (\<lambda>x. Inr (arctan x))),
      (''atan2'', Opaque), (''pi'', Opaque), (''norm'', Opaque), (''np'', Opaque),
      (''sign'', Opaque), (''angle_a2b'', Opaque), (''within_pi'', Opaque),
      (''clip'', Opaque), (''myPID'', Opaque), (''perspectives'', Opaque),
      (''CartesianPose'', Opaque), (''BicyclePose'', Opaque), (''BicycleModel'', Opaque),
      (''PicarHardwareInterface'', Opaque), (''test_PicarHardwareInterface'', Opaque),
      (''MyPicarController'', Opaque), (''test_MyPicarController'', Opaque),
      (''PicarUnitConverter'', Opaque), (''main'', Opaque)]"

text \<open>
  The call \<open>name(x)\<close> of a free name: the name is looked up in the global namespace
  (\<open>NameError\<close> when unbound), then the object found is called.
\<close>

definition call_global :: "(string \<rightharpoonup> pyobj) \<Rightarrow> string \<Rightarrow> real \<Rightarrow> error + real" where
  "call_global G n x =
     (case G n of
        None \<Rightarrow> Inl (NameError n)
      | Some (Fn f) \<Rightarrow> f x
      | Some Opaque \<Rightarrow> Inl (TypeError n))"

section \<open>PicarUnitConverter\<close>

record PicarUnitConverter =
  world_speed_scale :: real
  world_angle_scale :: real
  world_time_scale :: real
  world_speed_offset :: real
  world_angle_offset :: real

text \<open>\<open>__init__(speed_slope, angle_slope, time_slope=1, speed_intercept=0, angle_intercept=0)\<close>\<close>

definition PicarUnitConverter_init ::
  "real \<Rightarrow> real \<Rightarrow> real \<Rightarrow> real \<Rightarrow> real \<Rightarrow> PicarUnitConverter" where
  "PicarUnitConverter_init speed_slope angle_slope time_slope speed_intercept angle_intercept =
     \<lparr>world_speed_scale = speed_slope,
      world_angle_scale = angle_slope,
      world_time_scale = time_slope,
      world_speed_offset = speed_intercept,
      world_angle_offset = angle_intercept\<rparr>"

text \<open>
  \<open>self.name\<close> on a converter: the five attributes assigned by \<open>__init__\<close> are the
  only data attributes an instance has; any other name raises \<open>AttributeError\<close>.
\<close>

definition uc_getattr :: "PicarUnitConverter \<Rightarrow> string \<Rightarrow> error + real" where
  "uc_getattr self n =
     (if n = ''world_speed_scale'' then Inr (world_speed_scale self)
      else if n = ''world_angle_scale'' then Inr (world_angle_scale self)
      else if n = ''world_time_scale'' then Inr (world_time_scale self)
      else if n = ''world_speed_offset'' then Inr (world_speed_offset self)
      else if n = ''world_angle_offset'' then Inr (world_angle_offset self)
      else Inl (AttributeError n))"

definition speed_picar2world :: "PicarUnitConverter \<Rightarrow> real \<Rightarrow> error + real" where
  "speed_picar2world self picar_speed =
     bind_res (uc_getattr self ''world_speed_scale'') (\<lambda>m.
     bind_res (uc_getattr self ''world_speed_offset'') (\<lambda>b.
       Inr (m * picar_speed + b)))"

definition angle_picar2world :: "PicarUnitConverter \<Rightarrow> real \<Rightarrow> error + real" where
  "angle_picar2world self picar_angle =
     bind_res (uc_getattr self ''world_angle_scale'') (\<lambda>m.
     bind_res (uc_getattr self ''world_angle_offset'') (\<lambda>b.
       Inr (m * picar_angle + b)))"

definition time_picar2world :: "PicarUnitConverter \<Rightarrow> real \<Rightarrow> error + real" where
  "time_picar2world self picar_time =
     bind_res (uc_getattr self ''world_time_scale'') (\<lambda>m. Inr (m * picar_time))"

text \<open>
  Line 219, \<open>return speed_picar2world(picar_length) * self.time_scale\<close>: the left
  operand is a call of the free name \<open>speed_picar2world\<close>, resolved in the global
  namespace \<open>G\<close>; the right operand reads the attribute \<open>time_scale\<close>.
\<close>

definition length_picar2world ::
  "(string \<rightharpoonup> pyobj) \<Rightarrow> PicarUnitConverter \<Rightarrow> real \<Rightarrow> error + real" where
  "length_picar2world G self picar_length =
     bind_res (call_global G ''speed_picar2world'' picar_length) (\<lambda>v.
     bind_res (uc_getattr self ''time_scale'') (\<lambda>t.
       Inr (v * t)))"

definition speed_world2picar :: "PicarUnitConverter \<Rightarrow> real \<Rightarrow> error + real" where
  "speed_world2picar self world_speed =
     bind_res (uc_getattr self ''world_speed_offset'') (\<lambda>b.
     bind_res (uc_getattr self ''world_speed_scale'') (\<lambda>m.
       py_truediv (world_speed - b) m))"

definition angle_world2picar :: "PicarUnitConverter \<Rightarrow> real \<Rightarrow> error + real" where
  "angle_world2picar self world_angle =
     bind_res (uc_getattr self ''world_angle_offset'') (\<lambda>b.
     bind_res (uc_getattr self ''world_angle_scale'') (\<lambda>m.
       py_truediv (world_angle - b) m))"

definition time_world2picar :: "PicarUnitConverter \<Rightarrow> real \<Rightarrow> error + real" where
  "time_world2picar self world_time =
     bind_res (uc_getattr self ''world_time_scale'') (\<lambda>m. py_truediv world_time m)"

text \<open>Line 233, \<open>return speed_world2picar(world_length) / self.time_scale\<close>.\<close>

definition length_world2picar ::
  "(string \<rightharpoonup> pyobj) \<Rightarrow> PicarUnitConverter \<Rightarrow> real \<Rightarrow> error + real" where
  "length_world2picar G self world_length =
     bind_res (call_global G ''speed_world2picar'' world_length) (\<lambda>v.
     bind_res (uc_getattr self ''time_scale'') (\<lambda>t.
       py_truediv v t))"

section \<open>PicarHardwareInterface\<close>

text \<open>
  The two wheel objects \<open>self._fw\<close> and \<open>self._bw\<close> belong to the SunFounder library
  (or to its virtual stand-in). What the interface does to them is recorded as the list
  of primitive calls it makes, oldest first; \<open>sleep\<close> and \<open>print\<close> are recorded
  in the same list, so that the order of waits and calls is kept.
\<close>

datatype call =
    Fw_set_max_turn real
  | Fw_ready
  | Fw_turn real
  | Fw_turn_straight
  | Bw_ready
  | Bw_forward
  | Bw_backward
  | Bw_stop
  | Bw_set_speed int
  | Sleep real
  | Print

text \<open>
  The object: the calibration value \<open>self._fw._straight_angle\<close> that \<open>turn_wheels\<close>
  reads, the calls made so far, and the attributes \<open>self._steering\<close> and
  \<open>self._speed\<close>, which do not exist until a method assigns them.
\<close>

record PicarHardwareInterface =
  fw_straight_angle :: real
  trace :: "call list"
  hw_steering :: "real option"
  hw_speed :: "int option"

definition emit :: "call \<Rightarrow> PicarHardwareInterface \<Rightarrow> PicarHardwareInterface" where
  "emit c self = self\<lparr>trace := trace self @ [c]\<rparr>"

text \<open>The calls that took the object from \<open>before\<close> to \<open>after\<close>.\<close>

definition new_calls :: "PicarHardwareInterface \<Rightarrow> PicarHardwareInterface \<Rightarrow> call list" where
  "new_calls before after = drop (length (trace before)) (trace after)"

text \<open>
  \<open>__init__\<close>, lines 51 to 54, once the wheel objects exist; \<open>straight\<close> is the
  straight angle the front wheels loaded from their configuration.
\<close>

definition PicarHardwareInterface_init :: "real \<Rightarrow> real \<Rightarrow> PicarHardwareInterface" where
  "PicarHardwareInterface_init straight max_turn =
     \<lparr>fw_straight_angle = straight,
      trace = [Fw_set_max_turn max_turn, Fw_ready, Bw_ready, Bw_forward],
      hw_steering = None,
      hw_speed = None\<rparr>"

text \<open>
  \<open>self.name\<close> on the interface: the methods of the class (lines 35 to 120), the two
  wheel objects, and \<open>_steering\<close> and \<open>_speed\<close> once assigned. Any other name
  raises \<open>AttributeError\<close>.
\<close>

definition hw_attrs :: "string list" where
  "hw_attrs =
     [''__init__'', ''turn_wheels'', ''turn_wheels_straight'', ''stop_motors'',
      ''apply_controls'', ''_fw'', ''_bw'']"

definition hw_getattr :: "PicarHardwareInterface \<Rightarrow> string \<Rightarrow> error + unit" where
  "hw_getattr self n =
     (if n \<in> set hw_attrs then Inr ()
      else if n = ''_steering''
        then (case hw_steering self of None \<Rightarrow> Inl (AttributeError n) | Some _ \<Rightarrow> Inr ())
      else if n = ''_speed''
        then (case hw_speed self of None \<Rightarrow> Inl (AttributeError n) | Some _ \<Rightarrow> Inr ())
      else Inl (AttributeError n))"

definition turn_wheels :: "real \<Rightarrow> PicarHardwareInterface \<Rightarrow> PicarHardwareInterface" where
  "turn_wheels steer self = emit (Fw_turn (steer + fw_straight_angle self)) self"

text \<open>\<open>turn_wheels_straight(overshoot=10, delay=0.05)\<close>, lines 71 to 76.\<close>

definition turn_wheels_straight ::
  "real \<Rightarrow> real \<Rightarrow> PicarHardwareInterface \<Rightarrow> PicarHardwareInterface" where
  "turn_wheels_straight overshoot delay self =
     (let s1 = turn_wheels overshoot self;
          s2 = emit (Sleep delay) s1;
          s3 = turn_wheels (- overshoot) s2;
          s4 = emit (Sleep delay) s3;
          s5 = emit Fw_turn_straight s4
      in s5\<lparr>hw_steering := Some 0\<rparr>)"

definition stop_motors :: "PicarHardwareInterface \<Rightarrow> PicarHardwareInterface" where
  "stop_motors self = (emit Bw_stop self)\<lparr>hw_speed := Some 0\<rparr>"

text \<open>
  A method that may raise returns \<open>Inl (e, s)\<close> when it raises \<open>e\<close> and leaves the
  object as \<open>s\<close>, and \<open>Inr s\<close> when it returns with the object as \<open>s\<close>.

  The last branch of the direction dispatch, lines 105 to 108: \<open>self.halt()\<close>, then
  \<open>print(... self._direction ...)\<close>. Both start with an attribute lookup on the
  interface. The class defines no method \<open>halt\<close>, so the source has no body for the
  call after a lookup that succeeds; that position is reached by no object.
\<close>

definition invalid_direction ::
  "PicarHardwareInterface \<Rightarrow> (error \<times> PicarHardwareInterface) + PicarHardwareInterface" where
  "invalid_direction self =
     (case hw_getattr self ''halt'' of
        Inl e \<Rightarrow> Inl (e, self)
      | Inr _ \<Rightarrow>
          (case hw_getattr self ''_direction'' of
             Inl e \<Rightarrow> Inl (e, self)
           | Inr _ \<Rightarrow> Inr (emit Print self)))"

text \<open>Lines 97 to 108, \<open># Set back wheel direction\<close>.\<close>

definition set_back_wheel_direction ::
  "int \<Rightarrow> PicarHardwareInterface \<Rightarrow> (error \<times> PicarHardwareInterface) + PicarHardwareInterface" where
  "set_back_wheel_direction direction self =
     (if direction = 1 then Inr (emit Bw_forward self)
      else if direction = - 1 then Inr (emit Bw_backward self)
      else if direction = 0 then Inr self
      else invalid_direction self)"

text \<open>
  Lines 110 to 114, \<open># Set picar steering angle\<close>: the test and the call are on the
  argument \<open>steer\<close>.
\<close>

definition set_steering_angle :: "real \<Rightarrow> PicarHardwareInterface \<Rightarrow> PicarHardwareInterface" where
  "set_steering_angle steer self =
     (if steer = 0 then turn_wheels_straight 10 (5 / 100) self
      else turn_wheels steer self)"

text \<open>Lines 116 to 120, \<open># Set picar speed\<close>, on the truncated magnitude.\<close>

definition set_speed :: "int \<Rightarrow> PicarHardwareInterface \<Rightarrow> PicarHardwareInterface" where
  "set_speed speed self =
     (if speed = 0 then stop_motors self
      else emit (Bw_set_speed speed) self)"

text \<open>
  \<open>apply_controls(speed, steer, direction=1)\<close>. Line 94 binds \<open>steer_angle\<close>, which
  no later line reads; line 95 rebinds \<open>speed\<close> to the truncated magnitude.
\<close>

definition apply_controls ::
  "real \<Rightarrow> real \<Rightarrow> int \<Rightarrow> PicarHardwareInterface
     \<Rightarrow> (error \<times> PicarHardwareInterface) + PicarHardwareInterface" where
  "apply_controls speed steer direction self =
     (let steer_angle = direction * py_int steer;
          speed_int = py_int \<bar>speed\<bar>
      in case set_back_wheel_direction direction self of
           Inl raised \<Rightarrow> Inl raised
         | Inr s1 \<Rightarrow> Inr (set_speed speed_int (set_steering_angle steer s1)))"

text \<open>
  What is observed of a call that may raise: the exception, if any, and the object the
  call leaves behind.
\<close>

definition raised ::
  "(error \<times> PicarHardwareInterface) + PicarHardwareInterface \<Rightarrow> error option" where
  "raised r = (case r of Inl (e, s) \<Rightarrow> Some e | Inr s \<Rightarrow> None)"

definition final ::
  "(error \<times> PicarHardwareInterface) + PicarHardwareInterface \<Rightarrow> PicarHardwareInterface" where
  "final r = (case r of Inl (e, s) \<Rightarrow> s | Inr s \<Rightarrow> s)"

text \<open>The calls that drive or stop the back wheels, and those that select their direction.\<close>

fun is_drive_call :: "call \<Rightarrow> bool" where
  "is_drive_call Bw_stop = True"
| "is_drive_call (Bw_set_speed v) = True"
| "is_drive_call c = False"

fun is_direction_call :: "call \<Rightarrow> bool" where
  "is_direction_call Bw_forward = True"
| "is_direction_call Bw_backward = True"
| "is_direction_call c = False"

section \<open>MyPicarController\<close>

text \<open>
  Modelled from the spec: the class \<open>myPID\<close> of the module \<open>my_pid\<close>, which
  \<open>my_picar_utils.py\<close> imports and whose source is not embedded here. Section 4.1
  gives its state and its \<open>input(error, dt)\<close>: the
  integral is accumulated first, the derivative uses the previous error, and with
  \<open>dt = 0\<close> the derivative term contributes nothing instead of dividing by zero.
\<close>

record myPID =
  Kp :: real
  Ki :: real
  Kd :: real
  integral_accum :: real
  prev_error :: real

definition myPID_new :: "real \<Rightarrow> real \<Rightarrow> real \<Rightarrow> myPID" where
  "myPID_new kp ki kd =
     \<lparr>Kp = kp, Ki = ki, Kd = kd, integral_accum = 0, prev_error = 0\<rparr>"

definition myPID_input ::
  "myPID \<Rightarrow> real \<Rightarrow> real \<Rightarrow> (error \<times> myPID) + (real \<times> myPID)" where
  "myPID_input p err dt =
     (let acc = integral_accum p + err * dt;
          deriv = (if dt = 0 then 0 else (err - prev_error p) / dt)
      in Inr (Kp p * err + Ki p * acc + Kd p * deriv,
              p\<lparr>integral_accum := acc, prev_error := err\<rparr>))"

text \<open>
  Modelled from the spec: the function \<open>within_pi\<close> of the module \<open>helpers\<close>,
  which \<open>my_picar_utils.py\<close> imports and whose source is not embedded here.
  Section 4.2 has it wrap an angle into the range from \<open>-\<pi>\<close> to
  \<open>\<pi>\<close> by shortest-angle normalisation: the angle is shifted by a whole number of
  turns.
\<close>

definition within_pi :: "real \<Rightarrow> real" where
  "within_pi theta = theta - 2 * pi * of_int \<lceil>(theta - pi) / (2 * pi)\<rceil>"

text \<open>
  Modelled from the spec: \<open>within_pi\<close> applied to a Python float. A finite angle is
  wrapped as above. Section 4.2 gives no meaning to the wrapping of a value that is no
  finite number; the model answers \<open>NaN\<close> there.
\<close>

datatype pyfloat = Finite real | PosInf | NegInf | NaN

definition within_pi_float :: "pyfloat \<Rightarrow> pyfloat" where
  "within_pi_float x = (case x of Finite theta \<Rightarrow> Finite (within_pi theta) | _ \<Rightarrow> NaN)"

text \<open>
  Python's \<open>x / y\<close> dispatches on the types of its operands. Between builtin \<open>int\<close>
  and \<open>float\<close> values a zero divisor raises \<open>ZeroDivisionError\<close>. When one operand
  is a NumPy scalar (\<open>numpy.float64\<close> is a subclass of \<open>float\<close>), NumPy's division
  runs: in NumPy's default error state a zero divisor gives a warning and the quotient
  \<open>inf\<close>, \<open>-inf\<close> or \<open>nan\<close>, by the sign of the dividend. The divisor of
  line 165 is \<open>abs(speed)\<close>, so a zero divisor is a positive zero.
\<close>

datatype numkind = Builtin | Numpy

definition truediv :: "numkind \<Rightarrow> real \<Rightarrow> real \<Rightarrow> error + pyfloat" where
  "truediv ops x y =
     (if y = 0
      then (case ops of
              Builtin \<Rightarrow> Inl ZeroDivisionError
            | Numpy \<Rightarrow> Inr (if 0 < x then PosInf else if x < 0 then NegInf else NaN))
      else Inr (Finite (x / y)))"

text \<open>\<open>math.atan\<close> on a float: total, with the limits at the infinities.\<close>

definition py_atan :: "pyfloat \<Rightarrow> pyfloat" where
  "py_atan q =
     (case q of
        Finite x \<Rightarrow> Finite (arctan x)
      | PosInf \<Rightarrow> Finite (pi / 2)
      | NegInf \<Rightarrow> Finite (- (pi / 2))
      | NaN \<Rightarrow> NaN)"

text \<open>
  The controller holds three PID objects. Its methods are embedded over any PID state
  \<open>'s\<close> with its \<open>input\<close> method \<open>inp\<close>, and over any angle wrapper \<open>wrap\<close>.
  A call of \<open>inp\<close> returns the correction and the updated PID, or raises and leaves
  the PID in some state: \<open>Inl (e, s)\<close> is the exception \<open>e\<close> with the object left
  as \<open>s\<close>, for the PID and for the controller methods alike. The two PID objects that
  \<open>STEER\<close> updates are taken to be distinct objects.
\<close>

record 's MyPicarController =
  rho_controller :: 's
  alpha_controller :: 's
  beta_controller :: 's

text \<open>
  \<open>__init__\<close>, lines 139 to 148, when no controller object is passed: three PIDs
  built from the gains, in the order of the keyword arguments
  \<open>kpr, kpa, kpb, kdr, kda, kdb, kir, kia, kib\<close>.
\<close>

definition MyPicarController_init ::
  "real \<Rightarrow> real \<Rightarrow> real \<Rightarrow> real \<Rightarrow> real \<Rightarrow> real \<Rightarrow> real \<Rightarrow> real \<Rightarrow> real
     \<Rightarrow> myPID MyPicarController" where
  "MyPicarController_init kpr kpa kpb kdr kda kdb kir kia kib =
     \<lparr>rho_controller = myPID_new kpr kir kdr,
      alpha_controller = myPID_new kpa kia kda,
      beta_controller = myPID_new kpb kib kdb\<rparr>"

text \<open>\<open>MyPicarController()\<close> with the default gains \<open>kpr=1\<close>, all others 0.\<close>

definition MyPicarController_default :: "myPID MyPicarController" where
  "MyPicarController_default =
     \<lparr>rho_controller = myPID_new 1 0 0,
      alpha_controller = myPID_new 0 0 0,
      beta_controller = myPID_new 0 0 0\<rparr>"

definition SPEED ::
  "('s \<Rightarrow> real \<Rightarrow> real \<Rightarrow> (error \<times> 's) + (real \<times> 's)) \<Rightarrow> 's MyPicarController
     \<Rightarrow> real \<Rightarrow> real
     \<Rightarrow> (error \<times> 's MyPicarController) + (real \<times> 's MyPicarController)" where
  "SPEED inp self rho dt =
     (case inp (rho_controller self) rho dt of
        Inl (e, rc) \<Rightarrow> Inl (e, self\<lparr>rho_controller := rc\<rparr>)
      | Inr (v, rc) \<Rightarrow> Inr (v, self\<lparr>rho_controller := rc\<rparr>))"

text \<open>
  \<open>STEER(speed, alpha, beta, L, dt=1)\<close>, lines 157 to 168: the two controller
  updates, \<open>dh = a + b\<close>, \<open>s = abs(speed)\<close>, \<open>steer = atan(dh*L/s)\<close>, and the
  wrapped result. No line tests \<open>s\<close>: the division is executed as written, by the
  arithmetic \<open>ops\<close> of its operands (\<open>Numpy\<close> when \<open>dh*L\<close> or \<open>s\<close> is a NumPy
  scalar, \<open>Builtin\<close> otherwise). An exception leaves the PIDs as the lines before
  it have updated them.
\<close>

definition STEER ::
  "('s \<Rightarrow> real \<Rightarrow> real \<Rightarrow> (error \<times> 's) + (real \<times> 's)) \<Rightarrow> (pyfloat \<Rightarrow> pyfloat) \<Rightarrow> numkind
     \<Rightarrow> 's MyPicarController \<Rightarrow> real \<Rightarrow> real \<Rightarrow> real \<Rightarrow> real \<Rightarrow> real
     \<Rightarrow> (error \<times> 's MyPicarController) + (pyfloat \<times> 's MyPicarController)" where
  "STEER inp wrap ops self speed alpha beta L dt =
     (case inp (alpha_controller self) alpha dt of
        Inl (e, ac) \<Rightarrow> Inl (e, self\<lparr>alpha_controller := ac\<rparr>)
      | Inr (a, ac) \<Rightarrow>
          (case inp (beta_controller self) beta dt of
             Inl (e, bc) \<Rightarrow> Inl (e, self\<lparr>alpha_controller := ac, beta_controller := bc\<rparr>)
           | Inr (b, bc) \<Rightarrow>
               (let dh = a + b;
                    s = \<bar>speed\<bar>
                in case truediv ops (dh * L) s of
                     Inl e \<Rightarrow>
                       Inl (e, self\<lparr>alpha_controller := ac, beta_controller := bc\<rparr>)
                   | Inr q \<Rightarrow>
                       Inr (wrap (py_atan q),
                            self\<lparr>alpha_controller := ac, beta_controller := bc\<rparr>))))"

text \<open>\<open>DIRECTION(alpha, dt=1)\<close>, lines 174 to 177; the object is returned as it came.\<close>

definition DIRECTION ::
  "'s MyPicarController \<Rightarrow> real \<Rightarrow> real \<Rightarrow> bool \<times> 's MyPicarController" where
  "DIRECTION self alpha dt =
     (if \<bar>alpha\<bar> > pi / 2 + 1 / 10000 then (True, self) else (False, self))"

section \<open>Facts about the unit converter\<close>

lemma bind_res_simps:
  "bind_res (Inl e) f = Inl e"
  "bind_res (Inr v) f = f v"
  by (simp_all add: bind_res_def)

lemma uc_getattr_simps:
  "uc_getattr self ''world_speed_scale'' = Inr (world_speed_scale self)"
  "uc_getattr self ''world_angle_scale'' = Inr (world_angle_scale self)"
  "uc_getattr self ''world_time_scale'' = Inr (world_time_scale self)"
  "uc_getattr self ''world_speed_offset'' = Inr (world_speed_offset self)"
  "uc_getattr self ''world_angle_offset'' = Inr (world_angle_offset self)"
  "uc_getattr self ''time_scale'' = Inl (AttributeError ''time_scale'')"
  by (simp_all add: uc_getattr_def)

lemma speed_picar2world_eq:
  "speed_picar2world self v = Inr (world_speed_scale self * v + world_speed_offset self)"
  by (simp add: speed_picar2world_def uc_getattr_simps bind_res_simps)

lemma speed_world2picar_eq:
  "speed_world2picar self w =
     py_truediv (w - world_speed_offset self) (world_speed_scale self)"
  by (simp add: speed_world2picar_def uc_getattr_simps bind_res_simps)

lemma module_globals_unbound:
  "module_globals ''speed_picar2world'' = None"
  "module_globals ''speed_world2picar'' = None"
  by (simp_all add: module_globals_def)

text \<open>
  Whatever the global namespace binds, the two length conversions never return a value:
  if the free function name resolves and its call returns, the read of
  \<open>self.time_scale\<close> raises.
\<close>

lemma length_picar2world_never_returns:
  "length_picar2world G self l \<noteq> Inr r"
  by (cases "call_global G ''speed_picar2world'' l")
     (simp_all add: length_picar2world_def uc_getattr_simps bind_res_simps)

lemma length_world2picar_never_returns:
  "length_world2picar G self w \<noteq> Inr r"
  by (cases "call_global G ''speed_world2picar'' w")
     (simp_all add: length_world2picar_def uc_getattr_simps bind_res_simps)

text \<open>The round trips of speed, angle and time, for a nonzero scale.\<close>

lemma speed_round_trip:
  assumes "world_speed_scale self \<noteq> 0"
  shows "bind_res (speed_picar2world self x) (speed_world2picar self) = Inr x"
    and "bind_res (speed_world2picar self x) (speed_picar2world self) = Inr x"
  using assms
  by (simp_all add: speed_picar2world_def speed_world2picar_def uc_getattr_simps
      bind_res_simps py_truediv_def)

lemma angle_round_trip:
  assumes "world_angle_scale self \<noteq> 0"
  shows "bind_res (angle_picar2world self x) (angle_world2picar self) = Inr x"
    and "bind_res (angle_world2picar self x) (angle_picar2world self) = Inr x"
  using assms
  by (simp_all add: angle_picar2world_def angle_world2picar_def uc_getattr_simps
      bind_res_simps py_truediv_def)

lemma time_round_trip:
  assumes "world_time_scale self \<noteq> 0"
  shows "bind_res (time_picar2world self x) (time_world2picar self) = Inr x"
    and "bind_res (time_world2picar self x) (time_picar2world self) = Inr x"
  using assms
  by (simp_all add: time_picar2world_def time_world2picar_def uc_getattr_simps
      bind_res_simps py_truediv_def)

text \<open>
  Claim C1. The length conversion to world units is meant to be
  \<open>speed_picar2world(l) * time scale\<close> over the instance's own speed conversion and
  time scale, and its inverse the dual. In the module as written, for every instance and
  every input, \<open>length_picar2world\<close> raises \<open>NameError\<close> on the free name
  \<open>speed_picar2world\<close> and \<open>length_world2picar\<close> raises \<open>NameError\<close> on
  \<open>speed_world2picar\<close>, although the instance's own speed conversion returns a value:
  no product and no quotient is ever computed.
\<close>

theorem length_conversions_raise_NameError:
  "length_picar2world module_globals self l = Inl (NameError ''speed_picar2world'')
   \<and> length_world2picar module_globals self w = Inl (NameError ''speed_world2picar'')
   \<and> speed_picar2world self l
       = Inr (world_speed_scale self * l + world_speed_offset self)"
  by (simp add: length_picar2world_def length_world2picar_def call_global_def
      module_globals_unbound bind_res_simps speed_picar2world_eq)

text \<open>
  Claim C2. The round trip device units, world units, device units (and the reverse) is
  meant to return its input for speed, angle, time and length. On the converter
  \<open>PicarUnitConverter(2, 3)\<close>, whose scale factors are all nonzero, the speed, angle
  and time round trips of the input 1 return 1, and both length round trips raise
  \<open>NameError\<close> at their first conversion.
\<close>

theorem length_round_trip_fails:
  "bind_res (speed_picar2world (PicarUnitConverter_init 2 3 1 0 0) 1)
            (speed_world2picar (PicarUnitConverter_init 2 3 1 0 0)) = Inr 1
   \<and> bind_res (angle_picar2world (PicarUnitConverter_init 2 3 1 0 0) 1)
            (angle_world2picar (PicarUnitConverter_init 2 3 1 0 0)) = Inr 1
   \<and> bind_res (time_picar2world (PicarUnitConverter_init 2 3 1 0 0) 1)
            (time_world2picar (PicarUnitConverter_init 2 3 1 0 0)) = Inr 1
   \<and> bind_res (length_picar2world module_globals (PicarUnitConverter_init 2 3 1 0 0) 1)
            (length_world2picar module_globals (PicarUnitConverter_init 2 3 1 0 0))
       = Inl (NameError ''speed_picar2world'')
   \<and> bind_res (length_world2picar module_globals (PicarUnitConverter_init 2 3 1 0 0) 1)
            (length_picar2world module_globals (PicarUnitConverter_init 2 3 1 0 0))
       = Inl (NameError ''speed_world2picar'')"
  by (simp add: PicarUnitConverter_init_def speed_picar2world_def speed_world2picar_def
      angle_picar2world_def angle_world2picar_def time_picar2world_def
      time_world2picar_def length_picar2world_def length_world2picar_def
      call_global_def module_globals_unbound uc_getattr_simps bind_res_simps
      py_truediv_def)

section \<open>Facts about the hardware interface\<close>

lemma turn_wheels_straight_eq:
  "turn_wheels_straight overshoot delay self =
     self\<lparr>trace := trace self @
              [Fw_turn (overshoot + fw_straight_angle self), Sleep delay,
               Fw_turn (- overshoot + fw_straight_angle self), Sleep delay,
               Fw_turn_straight],
          hw_steering := Some 0\<rparr>"
  by (simp add: turn_wheels_straight_def turn_wheels_def emit_def Let_def)

lemma stop_motors_eq:
  "stop_motors self = self\<lparr>trace := trace self @ [Bw_stop], hw_speed := Some 0\<rparr>"
  by (simp add: stop_motors_def emit_def)

text \<open>
  Claim C8. Every call \<open>turn_wheels_straight(overshoot, delay)\<close> makes exactly the
  calls: turn to \<open>+overshoot\<close> (relative to the straight angle), wait \<open>delay\<close>, turn
  to \<open>-overshoot\<close>, wait \<open>delay\<close>, the front wheels' \<open>turn_straight\<close>; and it
  sets \<open>_steering\<close> to 0. A second call makes the same calls again and leaves
  \<open>_steering\<close> at 0.
\<close>

theorem turn_wheels_straight_sequence:
  "new_calls self (turn_wheels_straight overshoot delay self) =
     [Fw_turn (overshoot + fw_straight_angle self), Sleep delay,
      Fw_turn (- overshoot + fw_straight_angle self), Sleep delay,
      Fw_turn_straight]
   \<and> hw_steering (turn_wheels_straight overshoot delay self) = Some 0
   \<and> new_calls (turn_wheels_straight overshoot delay self)
        (turn_wheels_straight overshoot delay (turn_wheels_straight overshoot delay self))
       = new_calls self (turn_wheels_straight overshoot delay self)
   \<and> hw_steering (turn_wheels_straight overshoot delay
        (turn_wheels_straight overshoot delay self)) = Some 0"
  by (simp add: turn_wheels_straight_eq new_calls_def)

text \<open>
  Claim C9. Every call \<open>stop_motors()\<close> makes one call, the back wheels' \<open>stop\<close>:
  no turn, no \<open>turn_straight\<close>, no \<open>forward\<close> and no \<open>backward\<close>. The steering
  attribute and the calibration value are as before, the direction calls made so far
  are as before, and the only attribute written is \<open>_speed\<close>.
\<close>

theorem stop_motors_only_stops:
  "new_calls self (stop_motors self) = [Bw_stop]
   \<and> hw_steering (stop_motors self) = hw_steering self
   \<and> fw_straight_angle (stop_motors self) = fw_straight_angle self
   \<and> filter is_direction_call (trace (stop_motors self))
       = filter is_direction_call (trace self)
   \<and> stop_motors self = self\<lparr>trace := trace self @ [Bw_stop], hw_speed := Some 0\<rparr>"
  by (simp add: stop_motors_eq new_calls_def)

text \<open>
  Claim C3. The steering command is meant to be \<open>direction * steer\<close>. The call
  \<open>apply_controls(3, 5, -1)\<close> turns the wheels to \<open>+5\<close> (relative to the straight
  angle), not to \<open>-5\<close>, and \<open>apply_controls(3, 5, 0)\<close>, where
  \<open>direction * steer = 0\<close>, turns the wheels to \<open>+5\<close> as well instead of running
  the straightening sequence.
\<close>

theorem steer_sign_ignores_direction:
  "apply_controls 3 5 (- 1) self =
     Inr (self\<lparr>trace := trace self @
              [Bw_backward, Fw_turn (5 + fw_straight_angle self), Bw_set_speed 3]\<rparr>)
   \<and> apply_controls 3 5 0 self =
     Inr (self\<lparr>trace := trace self @
              [Fw_turn (5 + fw_straight_angle self), Bw_set_speed 3]\<rparr>)"
  by (simp add: apply_controls_def set_back_wheel_direction_def set_steering_angle_def
      set_speed_def turn_wheels_def emit_def py_int_def)

text \<open>
  Claim C4. A direction outside \<open>{-1, 0, 1}\<close> is meant to halt the drive and report a
  diagnostic without an exception. The call \<open>apply_controls(3, 0, 7)\<close> raises
  \<open>AttributeError\<close> on \<open>self.halt\<close>; the object is left as it was, so no call has
  reached the wheels: no \<open>stop\<close>, no print, and no \<open>forward\<close> or \<open>backward\<close>
  either.
\<close>

theorem invalid_direction_raises_AttributeError:
  "apply_controls 3 0 7 self = Inl (AttributeError ''halt'', self)
   \<and> raised (apply_controls 3 0 7 self) = Some (AttributeError ''halt'')
   \<and> new_calls self (final (apply_controls 3 0 7 self)) = []"
  by (simp add: apply_controls_def set_back_wheel_direction_def invalid_direction_def
      hw_getattr_def hw_attrs_def raised_def final_def new_calls_def)

text \<open>The three blocks of \<open>apply_controls\<close>, by the calls they make.\<close>

lemma set_back_wheel_direction_valid:
  assumes "direction \<in> {- 1, 0, 1}"
  shows "\<exists>cs. set_back_wheel_direction direction self
                 = Inr (self\<lparr>trace := trace self @ cs\<rparr>)
            \<and> filter is_drive_call cs = []"
proof -
  from assms consider "direction = 1" | "direction = - 1" | "direction = 0" by auto
  then show ?thesis
  proof cases
    case 1
    then have "set_back_wheel_direction direction self
        = Inr (self\<lparr>trace := trace self @ [Bw_forward]\<rparr>)"
      by (simp add: set_back_wheel_direction_def emit_def)
    then show ?thesis by (intro exI[of _ "[Bw_forward]"]) simp
  next
    case 2
    then have "set_back_wheel_direction direction self
        = Inr (self\<lparr>trace := trace self @ [Bw_backward]\<rparr>)"
      by (simp add: set_back_wheel_direction_def emit_def)
    then show ?thesis by (intro exI[of _ "[Bw_backward]"]) simp
  next
    case 3
    then have "set_back_wheel_direction direction self
        = Inr (self\<lparr>trace := trace self @ []\<rparr>)"
      by (simp add: set_back_wheel_direction_def)
    then show ?thesis by (intro exI[of _ "[]"]) simp
  qed
qed

lemma set_steering_angle_calls:
  "\<exists>cs. trace (set_steering_angle steer s) = trace s @ cs
        \<and> filter is_drive_call cs = []
        \<and> hw_speed (set_steering_angle steer s) = hw_speed s"
proof (cases "steer = 0")
  case True
  then show ?thesis
    by (simp add: set_steering_angle_def turn_wheels_straight_eq)
next
  case False
  then show ?thesis
    by (simp add: set_steering_angle_def turn_wheels_def emit_def)
qed

lemma set_speed_calls:
  "trace (set_speed v s) = trace s @ [if v = 0 then Bw_stop else Bw_set_speed v]"
  "hw_speed (set_speed v s) = (if v = 0 then Some 0 else hw_speed s)"
  by (simp_all add: set_speed_def stop_motors_eq emit_def)

lemma apply_controls_valid:
  assumes "direction \<in> {- 1, 0, 1}"
  shows "raised (apply_controls speed steer direction self) = None"
    and "filter is_drive_call
           (new_calls self (final (apply_controls speed steer direction self)))
           = [if py_int \<bar>speed\<bar> = 0 then Bw_stop else Bw_set_speed (py_int \<bar>speed\<bar>)]"
    and "hw_speed (final (apply_controls speed steer direction self))
           = (if py_int \<bar>speed\<bar> = 0 then Some 0 else hw_speed self)"
proof -
  obtain cs where d: "set_back_wheel_direction direction self
                        = Inr (self\<lparr>trace := trace self @ cs\<rparr>)"
    and cs: "filter is_drive_call cs = []"
    using set_back_wheel_direction_valid[OF assms] by blast
  define s1 where "s1 = self\<lparr>trace := trace self @ cs\<rparr>"
  obtain ds where t: "trace (set_steering_angle steer s1) = trace s1 @ ds"
    and ds: "filter is_drive_call ds = []"
    and sp: "hw_speed (set_steering_angle steer s1) = hw_speed s1"
    using set_steering_angle_calls by blast
  have r: "apply_controls speed steer direction self
             = Inr (set_speed (py_int \<bar>speed\<bar>) (set_steering_angle steer s1))"
    by (simp add: apply_controls_def d s1_def)
  show "raised (apply_controls speed steer direction self) = None"
    by (simp add: r raised_def)
  have t': "trace (set_steering_angle steer s1) = trace self @ cs @ ds"
    using t by (simp add: s1_def)
  have "trace (final (apply_controls speed steer direction self))
          = trace self @ cs @ ds @ [if py_int \<bar>speed\<bar> = 0 then Bw_stop
                                     else Bw_set_speed (py_int \<bar>speed\<bar>)]"
    by (simp add: r final_def set_speed_calls t')
  then show "filter is_drive_call
               (new_calls self (final (apply_controls speed steer direction self)))
           = [if py_int \<bar>speed\<bar> = 0 then Bw_stop else Bw_set_speed (py_int \<bar>speed\<bar>)]"
    using cs ds by (simp add: new_calls_def)
  have "hw_speed s1 = hw_speed self"
    by (simp add: s1_def)
  then show "hw_speed (final (apply_controls speed steer direction self))
           = (if py_int \<bar>speed\<bar> = 0 then Some 0 else hw_speed self)"
    by (simp add: r final_def set_speed_calls sp)
qed

lemma py_int_small: "0 < \<bar>x\<bar> \<Longrightarrow> \<bar>x\<bar> < 1 \<Longrightarrow> py_int \<bar>x\<bar> = 0"
  by (simp add: py_int_def floor_eq_iff)

text \<open>
  Claim C7. The call \<open>apply_controls(speed=0, steer=5, direction=1)\<close> makes exactly
  one \<open>stop\<close> call on the back wheels and sets no speed. In general the speed block
  is \<open>stop_motors()\<close> when the truncated magnitude of the speed is 0 and the
  assignment of that magnitude to the back wheels' speed otherwise; with a direction in
  \<open>{-1, 0, 1}\<close> the call returns, and that one call is the only stop or speed call
  it makes.
\<close>

theorem zero_speed_calls_stop_motors:
  "apply_controls 0 5 1 self =
     Inr (self\<lparr>trace := trace self @
                 [Bw_forward, Fw_turn (5 + fw_straight_angle self), Bw_stop],
               hw_speed := Some 0\<rparr>)
   \<and> filter is_drive_call (new_calls self (final (apply_controls 0 5 1 self))) = [Bw_stop]
   \<and> set_speed v s = (if v = 0 then stop_motors s else emit (Bw_set_speed v) s)
   \<and> (direction \<in> {- 1, 0, 1} \<longrightarrow>
        raised (apply_controls speed steer direction self) = None
        \<and> filter is_drive_call
            (new_calls self (final (apply_controls speed steer direction self)))
          = [if py_int \<bar>speed\<bar> = 0 then Bw_stop else Bw_set_speed (py_int \<bar>speed\<bar>)]
        \<and> hw_speed (final (apply_controls speed steer direction self))
          = (if py_int \<bar>speed\<bar> = 0 then Some 0 else hw_speed self))"
proof -
  have c: "apply_controls 0 5 1 self =
     Inr (self\<lparr>trace := trace self @
                 [Bw_forward, Fw_turn (5 + fw_straight_angle self), Bw_stop],
               hw_speed := Some 0\<rparr>)"
    by (simp add: apply_controls_def set_back_wheel_direction_def set_steering_angle_def
        set_speed_def turn_wheels_def stop_motors_eq emit_def py_int_def)
  have "filter is_drive_call (new_calls self (final (apply_controls 0 5 1 self)))
          = [Bw_stop]"
    by (simp add: c final_def new_calls_def)
  moreover have "set_speed v s = (if v = 0 then stop_motors s else emit (Bw_set_speed v) s)"
    by (simp add: set_speed_def)
  ultimately show ?thesis
    using c apply_controls_valid[where direction = direction and speed = speed
        and steer = steer and self = self]
    by simp
qed

theorem zero_speed_calls_stop_motors_witness:
  "(- 1 :: int) \<in> {- 1, 0, 1}
   \<and> raised (apply_controls (- 3) 5 (- 1) (PicarHardwareInterface_init 90 40)) = None
   \<and> filter is_drive_call
        (new_calls (PicarHardwareInterface_init 90 40)
          (final (apply_controls (- 3) 5 (- 1) (PicarHardwareInterface_init 90 40))))
       = [Bw_set_speed 3]
   \<and> hw_speed (final (apply_controls (- 3) 5 (- 1) (PicarHardwareInterface_init 90 40)))
       = None"
proof -
  have d: "(- 1 :: int) \<in> {- 1, 0, 1}" by simp
  have p: "py_int \<bar>- 3\<bar> = 3" by (simp add: py_int_def)
  have h: "hw_speed (PicarHardwareInterface_init 90 40) = None"
    by (simp add: PicarHardwareInterface_init_def)
  from zero_speed_calls_stop_motors[where self = "PicarHardwareInterface_init 90 40"
      and direction = "- 1" and speed = "- 3" and steer = 5] d p h
  show ?thesis by simp
qed

text \<open>
  Claim C10. For every speed with \<open>0 < |speed| < 1\<close> and every direction in
  \<open>{-1, 0, 1}\<close>, \<open>apply_controls\<close> truncates the magnitude of the speed to 0 and
  so runs \<open>stop_motors()\<close>: the back wheels get one \<open>stop\<close> call and no speed.
\<close>

theorem small_speed_stops_motors:
  assumes "0 < \<bar>speed\<bar>" and "\<bar>speed\<bar> < 1" and "direction \<in> {- 1, 0, 1}"
  shows "py_int \<bar>speed\<bar> = 0
    \<and> raised (apply_controls speed steer direction self) = None
    \<and> filter is_drive_call
         (new_calls self (final (apply_controls speed steer direction self))) = [Bw_stop]
    \<and> hw_speed (final (apply_controls speed steer direction self)) = Some 0"
  using assms py_int_small[of speed]
    apply_controls_valid[where direction = direction and speed = speed
      and steer = steer and self = self]
  by simp

theorem small_speed_stops_motors_witness:
  "0 < \<bar>1 / 2 :: real\<bar> \<and> \<bar>1 / 2 :: real\<bar> < 1 \<and> (1 :: int) \<in> {- 1, 0, 1}
   \<and> raised (apply_controls (1 / 2) 5 1 (PicarHardwareInterface_init 90 40)) = None
   \<and> filter is_drive_call
        (new_calls (PicarHardwareInterface_init 90 40)
          (final (apply_controls (1 / 2) 5 1 (PicarHardwareInterface_init 90 40))))
       = [Bw_stop]"
proof -
  have a: "0 < \<bar>1 / 2 :: real\<bar>" and b: "\<bar>1 / 2 :: real\<bar> < 1"
    and c: "(1 :: int) \<in> {- 1, 0, 1}" by simp_all
  from small_speed_stops_motors[OF a b c, where steer = 5
      and self = "PicarHardwareInterface_init 90 40"] a b c
  show ?thesis by simp
qed

section \<open>Facts about the controller\<close>

text \<open>
  Claim C6. \<open>DIRECTION(alpha, dt)\<close> is true exactly when \<open>|alpha| > \<pi>/2 + 1e-4\<close>:
  false at \<open>\<pi>/2 - 0.001\<close>, true at \<open>\<pi>/2 + 0.001\<close>, false at \<open>\<pi>/2\<close>. The
  result is the same for every \<open>dt\<close> and every controller object, and the object is
  left as it was.
\<close>

theorem DIRECTION_threshold:
  "fst (DIRECTION self alpha dt) = (\<bar>alpha\<bar> > pi / 2 + 1 / 10000)
   \<and> fst (DIRECTION self (pi / 2 - 1 / 1000) dt) = False
   \<and> fst (DIRECTION self (pi / 2 + 1 / 1000) dt) = True
   \<and> fst (DIRECTION self (pi / 2) dt) = False
   \<and> fst (DIRECTION self alpha dt) = fst (DIRECTION self' alpha dt')
   \<and> snd (DIRECTION self alpha dt) = self"
proof -
  have lo: "\<not> \<bar>pi / 2 - 1 / 1000\<bar> > pi / 2 + 1 / 10000"
    using pi_ge_two by (simp add: abs_if)
  have hi: "\<bar>pi / 2 + 1 / 1000\<bar> > pi / 2 + 1 / 10000"
    using pi_ge_two by (simp add: abs_if)
  have mid: "\<not> \<bar>pi / 2\<bar> > pi / 2 + 1 / 10000"
    using pi_ge_two by (simp add: abs_if)
  show ?thesis
    using lo hi mid by (simp add: DIRECTION_def)
qed

lemma truediv_nonzero: "y \<noteq> 0 \<Longrightarrow> truediv ops x y = Inr (Finite (x / y))"
  by (simp add: truediv_def)

lemma truediv_zero:
  "truediv Builtin x 0 = Inl ZeroDivisionError"
  "truediv Numpy x 0 = Inr (if 0 < x then PosInf else if x < 0 then NegInf else NaN)"
  by (simp_all add: truediv_def)

lemma STEER_builtin_zero_never_returns:
  "STEER inp wrap Builtin self 0 alpha beta L dt \<noteq> Inr r"
  by (simp add: STEER_def truediv_zero Let_def split: sum.splits prod.splits)

lemma STEER_of_updates:
  assumes "inp (alpha_controller self) alpha dt = Inr (a, ac)"
    and "inp (beta_controller self) beta dt = Inr (b, bc)"
  shows "STEER inp wrap ops self speed alpha beta L dt =
           (case truediv ops ((a + b) * L) \<bar>speed\<bar> of
              Inl e \<Rightarrow> Inl (e, self\<lparr>alpha_controller := ac, beta_controller := bc\<rparr>)
            | Inr q \<Rightarrow> Inr (wrap (py_atan q),
                          self\<lparr>alpha_controller := ac, beta_controller := bc\<rparr>))"
  using assms by (simp add: STEER_def Let_def)

text \<open>
  Claim C5, as the code has it. \<open>STEER\<close> has no case for a zero speed; the division
  \<open>dh*L/s\<close> is executed as written. With builtin \<open>int\<close> and \<open>float\<close> operands a
  call with \<open>speed = 0\<close> returns no value, whatever \<open>alpha\<close>, \<open>beta\<close>, \<open>L\<close>
  and \<open>dt\<close>: once the two controller updates have returned it raises
  \<open>ZeroDivisionError\<close>, and the two PIDs stay updated. With a NumPy scalar among the
  operands the same call returns the wrapped \<open>atan\<close> of \<open>inf\<close>, \<open>-inf\<close> or
  \<open>nan\<close>. For every nonzero speed, in either arithmetic, the call returns the wrapped
  \<open>atan(dh*L/|speed|)\<close>.
\<close>

theorem STEER_division_unguarded:
  "(\<forall>r. STEER inp wrap Builtin self 0 alpha beta L dt \<noteq> Inr r)
   \<and> (inp (alpha_controller self) alpha dt = Inr (a, ac) \<longrightarrow>
      inp (beta_controller self) beta dt = Inr (b, bc) \<longrightarrow>
        STEER inp wrap Builtin self 0 alpha beta L dt
          = Inl (ZeroDivisionError,
                 self\<lparr>alpha_controller := ac, beta_controller := bc\<rparr>)
        \<and> STEER inp wrap Numpy self 0 alpha beta L dt
          = Inr (wrap (py_atan (if 0 < (a + b) * L then PosInf
                                else if (a + b) * L < 0 then NegInf else NaN)),
                 self\<lparr>alpha_controller := ac, beta_controller := bc\<rparr>)
        \<and> (speed \<noteq> 0 \<longrightarrow>
             STEER inp wrap ops self speed alpha beta L dt
               = Inr (wrap (Finite (arctan ((a + b) * L / \<bar>speed\<bar>))),
                      self\<lparr>alpha_controller := ac, beta_controller := bc\<rparr>)))"
proof (intro conjI allI impI)
  fix r
  show "STEER inp wrap Builtin self 0 alpha beta L dt \<noteq> Inr r"
    by (rule STEER_builtin_zero_never_returns)
next
  assume u: "inp (alpha_controller self) alpha dt = Inr (a, ac)"
    "inp (beta_controller self) beta dt = Inr (b, bc)"
  show "STEER inp wrap Builtin self 0 alpha beta L dt
          = Inl (ZeroDivisionError,
                 self\<lparr>alpha_controller := ac, beta_controller := bc\<rparr>)"
    using u by (simp add: STEER_of_updates truediv_zero)
  show "STEER inp wrap Numpy self 0 alpha beta L dt
          = Inr (wrap (py_atan (if 0 < (a + b) * L then PosInf
                                else if (a + b) * L < 0 then NegInf else NaN)),
                 self\<lparr>alpha_controller := ac, beta_controller := bc\<rparr>)"
    using u by (simp add: STEER_of_updates truediv_zero)
  show "STEER inp wrap ops self speed alpha beta L dt
          = Inr (wrap (Finite (arctan ((a + b) * L / \<bar>speed\<bar>))),
                 self\<lparr>alpha_controller := ac, beta_controller := bc\<rparr>)"
    if "speed \<noteq> 0"
    using that u by (simp add: STEER_of_updates truediv_nonzero py_atan_def)
qed

text \<open>
  The theorem at \<open>MyPicarController(kpa=1, kpb=1)\<close> with \<open>alpha = beta = 1\<close>,
  \<open>L = 2\<close> and \<open>dt = 1\<close>, where \<open>dh = 2\<close>: the speed \<open>-4\<close> gives
  \<open>atan(2*2/4)\<close>, the builtin zero raises, the NumPy zero gives \<open>atan(inf)\<close>.
\<close>

theorem STEER_division_unguarded_witness:
  "myPID_input (alpha_controller (MyPicarController_init 1 1 1 0 0 0 0 0 0)) 1 1
     = Inr (1, (myPID_new 1 0 0)\<lparr>integral_accum := 1, prev_error := 1\<rparr>)
   \<and> myPID_input (beta_controller (MyPicarController_init 1 1 1 0 0 0 0 0 0)) 1 1
     = Inr (1, (myPID_new 1 0 0)\<lparr>integral_accum := 1, prev_error := 1\<rparr>)
   \<and> (- 4 :: real) \<noteq> 0
   \<and> STEER myPID_input within_pi_float Builtin
        (MyPicarController_init 1 1 1 0 0 0 0 0 0) 0 1 1 2 1
     = Inl (ZeroDivisionError,
            (MyPicarController_init 1 1 1 0 0 0 0 0 0)
              \<lparr>alpha_controller := (myPID_new 1 0 0)\<lparr>integral_accum := 1, prev_error := 1\<rparr>,
               beta_controller := (myPID_new 1 0 0)\<lparr>integral_accum := 1, prev_error := 1\<rparr>\<rparr>)
   \<and> STEER myPID_input within_pi_float Numpy
        (MyPicarController_init 1 1 1 0 0 0 0 0 0) 0 1 1 2 1
     = Inr (Finite (within_pi (pi / 2)),
            (MyPicarController_init 1 1 1 0 0 0 0 0 0)
              \<lparr>alpha_controller := (myPID_new 1 0 0)\<lparr>integral_accum := 1, prev_error := 1\<rparr>,
               beta_controller := (myPID_new 1 0 0)\<lparr>integral_accum := 1, prev_error := 1\<rparr>\<rparr>)
   \<and> STEER myPID_input within_pi_float Builtin
        (MyPicarController_init 1 1 1 0 0 0 0 0 0) (- 4) 1 1 2 1
     = Inr (Finite (within_pi (arctan 1)),
            (MyPicarController_init 1 1 1 0 0 0 0 0 0)
              \<lparr>alpha_controller := (myPID_new 1 0 0)\<lparr>integral_accum := 1, prev_error := 1\<rparr>,
               beta_controller := (myPID_new 1 0 0)\<lparr>integral_accum := 1, prev_error := 1\<rparr>\<rparr>)"
proof -
  have a: "myPID_input (alpha_controller (MyPicarController_init 1 1 1 0 0 0 0 0 0)) 1 1
             = Inr (1, (myPID_new 1 0 0)\<lparr>integral_accum := 1, prev_error := 1\<rparr>)"
    and b: "myPID_input (beta_controller (MyPicarController_init 1 1 1 0 0 0 0 0 0)) 1 1
             = Inr (1, (myPID_new 1 0 0)\<lparr>integral_accum := 1, prev_error := 1\<rparr>)"
    by (simp_all add: myPID_input_def MyPicarController_init_def myPID_new_def)
  have n: "(- 4 :: real) \<noteq> 0" by simp
  from STEER_division_unguarded[where inp = myPID_input and wrap = within_pi_float
      and self = "MyPicarController_init 1 1 1 0 0 0 0 0 0"
      and alpha = 1 and beta = 1 and L = 2 and dt = 1
      and a = 1 and b = 1
      and ac = "(myPID_new 1 0 0)\<lparr>integral_accum := 1, prev_error := 1\<rparr>"
      and bc = "(myPID_new 1 0 0)\<lparr>integral_accum := 1, prev_error := 1\<rparr>"
      and speed = "- 4" and ops = Builtin] a b n
  show ?thesis by (simp add: py_atan_def within_pi_float_def)
qed

text \<open>
  The claim C5 as written, that a zero speed is handled and no division by zero gets
  out, fails on the call of the module's own test with the speed set to 0:
  \<open>MyPicarController().STEER(speed=0, alpha=pi/2, beta=-pi/4, L=2)\<close>, all arguments
  builtin numbers, raises \<open>ZeroDivisionError\<close> after both PIDs have recorded their
  input.
\<close>

theorem STEER_zero_speed_counterexample:
  "STEER myPID_input within_pi_float Builtin MyPicarController_default
      0 (pi / 2) (- pi / 4) 2 1
     = Inl (ZeroDivisionError,
            MyPicarController_default
              \<lparr>alpha_controller :=
                 (myPID_new 0 0 0)\<lparr>integral_accum := pi / 2, prev_error := pi / 2\<rparr>,
               beta_controller :=
                 (myPID_new 0 0 0)\<lparr>integral_accum := - pi / 4, prev_error := - pi / 4\<rparr>\<rparr>)"
  by (simp add: STEER_def myPID_input_def MyPicarController_default_def myPID_new_def
      truediv_def Let_def)

end
